theory Spec2Isabelle
  imports Complex_Main "HOL-Library.Log_Nat"
begin

section \<open>Python values and exceptions\<close>

text \<open>
  The notebook \<^verbatim>\<open>Lesson05/Activity28/activity28.ipynb\<close> defines one function,
  \<^verbatim>\<open>to_epoch\<close>, and one class, \<^verbatim>\<open>TrackLayer\<close>. Exceptions are modelled
  as values of the type \<open>py_error\<close>; a call that can raise returns \<open>py_error + 'a\<close>,
  with \<open>Inl\<close> for the exception.
\<close>

datatype py_error = ValueError | OverflowError | OSError | AttributeError

text \<open>
  Python objects handed to the layer are opaque, except that \<^verbatim>\<open>None\<close> is told
  apart from every other object.
\<close>

datatype 'o py_obj = PyNone | Obj 'o

section \<open>The custom layer\<close>

text \<open>
  \<^verbatim>\<open>
  class TrackLayer(BaseLayer):
      def __init__(self, dataset, bbox=BoundingBox.WORLD):
          self.view = bbox
          pass
      def draw(self, proj, mouse_x, mouse_y, ui_manager):
          pass
      def bbox(self):
          return self.view
  \<close>
  An instance is its attribute dictionary: the only attribute the class ever sets is
  \<^verbatim>\<open>view\<close>, which is absent (\<open>None\<close> of the option type) until
  \<^verbatim>\<open>__init__\<close> has run. A method takes the instance and returns what the call
  returns (or raises) together with the instance afterwards.
\<close>

record 'o TrackLayer =
  view :: "'o py_obj option"

type_synonym 'o call = "(py_error + 'o py_obj) \<times> 'o TrackLayer"

text \<open>
  The default value of the parameter \<^verbatim>\<open>bbox\<close> is the constant
  \<^verbatim>\<open>BoundingBox.WORLD\<close> of the imported plotting library, evaluated once when
  the class is defined. The library is not part of the repository, so the constant is
  the parameter \<open>WORLD\<close> of the model. An omitted argument is \<open>None\<close> of the
  option type.
\<close>

definition TrackLayer_init ::
  "'o py_obj \<Rightarrow> 'o TrackLayer \<Rightarrow> 'd \<Rightarrow> 'o py_obj option \<Rightarrow> 'o call" where
  "TrackLayer_init WORLD self dataset bbox_arg =
     (let bbox = (case bbox_arg of None \<Rightarrow> WORLD | Some b \<Rightarrow> b)
      in (Inr PyNone, self\<lparr>view := Some bbox\<rparr>))"

definition draw :: "'o TrackLayer \<Rightarrow> 'p \<Rightarrow> 'x \<Rightarrow> 'y \<Rightarrow> 'u \<Rightarrow> 'o call" where
  "draw self proj mouse_x mouse_y ui_manager = (Inr PyNone, self)"

definition bbox :: "'o TrackLayer \<Rightarrow> 'o call" where
  "bbox self =
     (case view self of
        None \<Rightarrow> (Inl AttributeError, self)
      | Some v \<Rightarrow> (Inr v, self))"

text \<open>
  The expression \<^verbatim>\<open>TrackLayer(dataset, bbox)\<close> creates an instance without
  attributes and runs \<^verbatim>\<open>__init__\<close> on it.
\<close>

definition new_instance :: "'o TrackLayer" where
  "new_instance = \<lparr>view = None\<rparr>"

definition TrackLayer :: "'o py_obj \<Rightarrow> 'd \<Rightarrow> 'o py_obj option \<Rightarrow> 'o TrackLayer" where
  "TrackLayer WORLD dataset bbox_arg = snd (TrackLayer_init WORLD new_instance dataset bbox_arg)"

text \<open>A sequence of \<^verbatim>\<open>draw\<close> calls, each with its own arguments.\<close>

fun draw_calls :: "'o TrackLayer \<Rightarrow> ('p \<times> 'x \<times> 'y \<times> 'u) list \<Rightarrow> 'o TrackLayer" where
  "draw_calls self [] = self"
| "draw_calls self ((proj, mouse_x, mouse_y, ui_manager) # calls) =
     draw_calls (snd (draw self proj mouse_x mouse_y ui_manager)) calls"

text \<open>
  A call behaves like an unimplemented body (\<^verbatim>\<open>pass\<close>) when it returns
  \<^verbatim>\<open>None\<close> and leaves the instance as it was.
\<close>

definition unimplemented :: "'o TrackLayer \<Rightarrow> 'o call \<Rightarrow> bool" where
  "unimplemented self out \<longleftrightarrow> out = (Inr PyNone, self)"

section \<open>The timestamp conversion\<close>

text \<open>
  \<^verbatim>\<open>
  def to_epoch(date, time):
      try:
          timestamp = round(datetime.strptime('{} {}'.format(date, time),
                                              '%Y/%m/%d %H:%M:%S.%f').timestamp())
          return timestamp
      except ValueError:
          return round(datetime.strptime('2017/09/11 17:02:06.418',
                                         '%Y/%m/%d %H:%M:%S.%f').timestamp())
  \<close>
  The function is five lines over the standard library: \<^verbatim>\<open>str.format\<close>,
  \<^verbatim>\<open>datetime.strptime\<close>, \<^verbatim>\<open>datetime.timestamp\<close> and
  \<^verbatim>\<open>round\<close>. The library calls are modelled as CPython 3.7 (the notebook's
  kernel) defines them, for the one format string the notebook uses. A string is a list of
  characters, each a code point below 256.
\<close>

datatype py_num = PyInt int | PyFloat rat

definition and_then :: "'e + 'a \<Rightarrow> ('a \<Rightarrow> 'e + 'b) \<Rightarrow> 'e + 'b" where
  "and_then r f = (case r of Inl e \<Rightarrow> Inl e | Inr x \<Rightarrow> f x)"

definition py_format :: "string \<Rightarrow> string \<Rightarrow> string" where
  "py_format date time = date @ '' '' @ time"

subsection \<open>The regular expression of the format\<close>

text \<open>
  \<^verbatim>\<open>strptime\<close> turns the format into a regular expression and matches it at
  the start of the data string with Python's backtracking matcher. A match of an
  expression against a string is a pair of the named groups it captured and the rest of
  the string; \<open>rx_match\<close> lists all matches in the order in which backtracking
  tries them, so the head of the list is the match Python reports. \<open>Plus p\<close> is
  \<^verbatim>\<open>p+\<close> and \<open>Rep n p\<close> is \<^verbatim>\<open>p{1,n}\<close>, both greedy.
\<close>

datatype rx =
    Lit char
  | Cls "char \<Rightarrow> bool"
  | Seq rx rx
  | Alt rx rx
  | Plus "char \<Rightarrow> bool"
  | Rep nat "char \<Rightarrow> bool"
  | Group char rx

type_synonym groupdict = "(char \<times> string) list"

fun plus_match :: "(char \<Rightarrow> bool) \<Rightarrow> string \<Rightarrow> string list" where
  "plus_match p [] = []"
| "plus_match p (c # s) = (if p c then plus_match p s @ [s] else [])"

fun rep_match :: "nat \<Rightarrow> (char \<Rightarrow> bool) \<Rightarrow> string \<Rightarrow> string list" where
  "rep_match 0 p s = []"
| "rep_match (Suc n) p [] = []"
| "rep_match (Suc n) p (c # s) = (if p c then rep_match n p s @ [s] else [])"

fun rx_match :: "rx \<Rightarrow> string \<Rightarrow> (groupdict \<times> string) list" where
  "rx_match (Lit c) s = (case s of [] \<Rightarrow> [] | x # xs \<Rightarrow> if x = c then [([], xs)] else [])"
| "rx_match (Cls p) s = (case s of [] \<Rightarrow> [] | x # xs \<Rightarrow> if p x then [([], xs)] else [])"
| "rx_match (Seq a b) s =
     concat (map (\<lambda>(g1, s1). map (\<lambda>(g2, s2). (g1 @ g2, s2)) (rx_match b s1)) (rx_match a s))"
| "rx_match (Alt a b) s = rx_match a s @ rx_match b s"
| "rx_match (Plus p) s = map (Pair []) (plus_match p s)"
| "rx_match (Rep n p) s = map (Pair []) (rep_match n p s)"
| "rx_match (Group k r) s =
     map (\<lambda>(g, rest). ((k, take (length s - length rest) s) # g, rest)) (rx_match r s)"

definition between :: "char \<Rightarrow> char \<Rightarrow> char \<Rightarrow> bool" where
  "between lo hi c \<longleftrightarrow> (of_char lo :: nat) \<le> of_char c \<and> (of_char c :: nat) \<le> of_char hi"

text \<open>
  Below code point 256 the class \<^verbatim>\<open>\d\<close> of a Python 3 string pattern holds the
  ten ASCII digits, and \<^verbatim>\<open>\s\<close> holds the code points listed in \<open>is_space\<close>.
\<close>

definition is_digit :: "char \<Rightarrow> bool" where
  "is_digit = between CHR ''0'' CHR ''9''"

definition is_space :: "char \<Rightarrow> bool" where
  "is_space c \<longleftrightarrow> (of_char c :: nat) \<in> {9, 10, 11, 12, 13, 28, 29, 30, 31, 32, 133, 160}"

fun alts :: "rx \<Rightarrow> rx list \<Rightarrow> rx" where
  "alts r [] = r"
| "alts r (x # xs) = Alt r (alts x xs)"

fun seqs :: "rx \<Rightarrow> rx list \<Rightarrow> rx" where
  "seqs r [] = r"
| "seqs r (x # xs) = Seq r (seqs x xs)"

text \<open>
  The expression that \<^verbatim>\<open>_strptime.TimeRE.pattern\<close> builds for the format
  \<^verbatim>\<open>%Y/%m/%d %H:%M:%S.%f\<close>; the blank of the format becomes
  \<^verbatim>\<open>\s+\<close>:
  \<^verbatim>\<open>(?P<Y>\d\d\d\d)/(?P<m>1[0-2]|0[1-9]|[1-9])/(?P<d>3[0-1]|[1-2]\d|0[1-9]|[1-9]| [1-9])\s+(?P<H>2[0-3]|[0-1]\d|\d):(?P<M>[0-5]\d|\d):(?P<S>6[0-1]|[0-5]\d|\d)\.(?P<f>[0-9]{1,6})\<close>
\<close>

definition format_regex :: rx where
  "format_regex = seqs
     (Group CHR ''Y'' (seqs (Cls is_digit) [Cls is_digit, Cls is_digit, Cls is_digit]))
     [Lit CHR ''/'',
      Group CHR ''m'' (alts (Seq (Lit CHR ''1'') (Cls (between CHR ''0'' CHR ''2'')))
                            [Seq (Lit CHR ''0'') (Cls (between CHR ''1'' CHR ''9'')),
                             Cls (between CHR ''1'' CHR ''9'')]),
      Lit CHR ''/'',
      Group CHR ''d'' (alts (Seq (Lit CHR ''3'') (Cls (between CHR ''0'' CHR ''1'')))
                            [Seq (Cls (between CHR ''1'' CHR ''2'')) (Cls is_digit),
                             Seq (Lit CHR ''0'') (Cls (between CHR ''1'' CHR ''9'')),
                             Cls (between CHR ''1'' CHR ''9''),
                             Seq (Lit CHR '' '') (Cls (between CHR ''1'' CHR ''9''))]),
      Plus is_space,
      Group CHR ''H'' (alts (Seq (Lit CHR ''2'') (Cls (between CHR ''0'' CHR ''3'')))
                            [Seq (Cls (between CHR ''0'' CHR ''1'')) (Cls is_digit),
                             Cls is_digit]),
      Lit CHR '':'',
      Group CHR ''M'' (alts (Seq (Cls (between CHR ''0'' CHR ''5'')) (Cls is_digit))
                            [Cls is_digit]),
      Lit CHR '':'',
      Group CHR ''S'' (alts (Seq (Lit CHR ''6'') (Cls (between CHR ''0'' CHR ''1'')))
                            [Seq (Cls (between CHR ''0'' CHR ''5'')) (Cls is_digit),
                             Cls is_digit]),
      Lit CHR ''.'',
      Group CHR ''f'' (Rep 6 (between CHR ''0'' CHR ''9''))]"

subsection \<open>Dates and times\<close>

text \<open>
  A naive \<^verbatim>\<open>datetime\<close> object. Its constructor checks the fields and raises
  \<^verbatim>\<open>ValueError\<close> for a field out of range (\<^verbatim>\<open>_check_date_fields\<close>,
  \<^verbatim>\<open>_check_time_fields\<close>); the calendar helpers are those of
  \<^verbatim>\<open>datetime.py\<close>.
\<close>

record datetime =
  year :: int
  month :: int
  day :: int
  hour :: int
  minute :: int
  second :: int
  microsecond :: int

definition DAYS_IN_MONTH :: "int list" where
  "DAYS_IN_MONTH = [-1, 31, 28, 31, 30, 31, 30, 31, 31, 30, 31, 30, 31]"

definition DAYS_BEFORE_MONTH :: "int list" where
  "DAYS_BEFORE_MONTH = [-1, 0, 31, 59, 90, 120, 151, 181, 212, 243, 273, 304, 334]"

definition is_leap :: "int \<Rightarrow> bool" where
  "is_leap y \<longleftrightarrow> y mod 4 = 0 \<and> (y mod 100 \<noteq> 0 \<or> y mod 400 = 0)"

definition days_before_year :: "int \<Rightarrow> int" where
  "days_before_year y' = (let y = y' - 1 in y * 365 + y div 4 - y div 100 + y div 400)"

definition days_in_month :: "int \<Rightarrow> int \<Rightarrow> int" where
  "days_in_month y m = (if m = 2 \<and> is_leap y then 29 else DAYS_IN_MONTH ! nat m)"

definition days_before_month :: "int \<Rightarrow> int \<Rightarrow> int" where
  "days_before_month y m = DAYS_BEFORE_MONTH ! nat m + (if 2 < m \<and> is_leap y then 1 else 0)"

definition ymd2ord :: "int \<Rightarrow> int \<Rightarrow> int \<Rightarrow> int" where
  "ymd2ord y m d = days_before_year y + days_before_month y m + d"

definition check_date_fields :: "int \<Rightarrow> int \<Rightarrow> int \<Rightarrow> py_error + unit" where
  "check_date_fields y m d =
     (if \<not> (1 \<le> y \<and> y \<le> 9999) then Inl ValueError
      else if \<not> (1 \<le> m \<and> m \<le> 12) then Inl ValueError
      else if \<not> (1 \<le> d \<and> d \<le> days_in_month y m) then Inl ValueError
      else Inr ())"

definition check_time_fields :: "int \<Rightarrow> int \<Rightarrow> int \<Rightarrow> int \<Rightarrow> py_error + unit" where
  "check_time_fields hh mm ss us =
     (if \<not> (0 \<le> hh \<and> hh \<le> 23) then Inl ValueError
      else if \<not> (0 \<le> mm \<and> mm \<le> 59) then Inl ValueError
      else if \<not> (0 \<le> ss \<and> ss \<le> 59) then Inl ValueError
      else if \<not> (0 \<le> us \<and> us \<le> 999999) then Inl ValueError
      else Inr ())"

definition datetime_new ::
  "int \<Rightarrow> int \<Rightarrow> int \<Rightarrow> int \<Rightarrow> int \<Rightarrow> int \<Rightarrow> int \<Rightarrow> py_error + datetime" where
  "datetime_new y m d hh mm ss us =
     and_then (check_date_fields y m d) (\<lambda>_.
     and_then (check_time_fields hh mm ss us) (\<lambda>_.
     Inr \<lparr>year = y, month = m, day = d, hour = hh, minute = mm, second = ss,
          microsecond = us\<rparr>))"

subsection \<open>Parsing\<close>

text \<open>
  \<^verbatim>\<open>int\<close> applied to the text of a group: the groups of the format capture
  decimal digits, the day group possibly after one blank, which \<^verbatim>\<open>int\<close> skips.
\<close>

definition py_int :: "string \<Rightarrow> int" where
  "py_int s = foldl (\<lambda>n c. 10 * n + (int (of_char c) - 48)) 0 (dropWhile is_space s)"

definition found :: "groupdict \<Rightarrow> char \<Rightarrow> string" where
  "found found_dict k = (case map_of found_dict k of None \<Rightarrow> [] | Some s \<Rightarrow> s)"

text \<open>
  \<^verbatim>\<open>datetime.strptime(data_string, '%Y/%m/%d %H:%M:%S.%f')\<close>, following
  \<^verbatim>\<open>_strptime._strptime\<close>: no match, or a match that leaves text unconverted, is
  a \<^verbatim>\<open>ValueError\<close>; the fraction is padded with zeros on the right to six digits;
  the date is checked (\<^verbatim>\<open>datetime_date(year, month, day)\<close>) and the object is
  constructed.
\<close>

definition strptime :: "string \<Rightarrow> py_error + datetime" where
  "strptime data_string =
     (case rx_match format_regex data_string of
        [] \<Rightarrow> Inl ValueError
      | (found_dict, rest) # _ \<Rightarrow>
          if rest \<noteq> [] then Inl ValueError
          else
            let y = py_int (found found_dict CHR ''Y'');
                m = py_int (found found_dict CHR ''m'');
                d = py_int (found found_dict CHR ''d'');
                hh = py_int (found found_dict CHR ''H'');
                mm = py_int (found found_dict CHR ''M'');
                ss = py_int (found found_dict CHR ''S'');
                s = found found_dict CHR ''f'';
                fraction = py_int (s @ replicate (6 - length s) CHR ''0'')
            in and_then (check_date_fields y m d) (\<lambda>_.
               datetime_new y m d hh mm ss fraction))"

subsection \<open>Floating-point numbers\<close>

text \<open>
  A Python float is an IEEE 754 binary64 number: a rational with a significand of 53
  bits. \<open>to_double\<close> rounds a rational to the nearest such number, ties to the even
  significand (overflow and subnormal numbers do not arise here: the magnitudes that the
  conversion meets lie between one millionth and \<open>2 ^ 63\<close>).
  \<open>exponent x\<close> is the integer \<open>e\<close> with \<open>2 powi e \<le> \<bar>x\<bar> < 2 powi (e + 1)\<close>. The
  built-in \<^verbatim>\<open>round\<close> of a float returns the nearest \<^verbatim>\<open>int\<close>, ties
  to even.
\<close>

definition round_half_even :: "rat \<Rightarrow> int" where
  "round_half_even x =
     (let n = \<lfloor>x\<rfloor>; r = x - of_int n
      in if r < 1 / 2 then n else if 1 / 2 < r then n + 1 else if even n then n else n + 1)"

definition exponent :: "rat \<Rightarrow> int" where
  "exponent x =
     (let a = \<bar>x\<bar>
      in if 1 \<le> a then bitlen \<lfloor>a\<rfloor> - 1 else - bitlen (\<lceil>1 / a\<rceil> - 1))"

definition to_double :: "rat \<Rightarrow> rat" where
  "to_double x =
     (if x = 0 then 0
      else let ulp = 2 powi (exponent x - 52)
           in of_int (round_half_even (x / ulp)) * ulp)"

definition float_of_int :: "int \<Rightarrow> rat" where
  "float_of_int n = to_double (of_int n)"

definition float_add :: "rat \<Rightarrow> rat \<Rightarrow> rat" where
  "float_add a b = to_double (a + b)"

definition float_div :: "rat \<Rightarrow> rat \<Rightarrow> rat" where
  "float_div a b = to_double (a / b)"

fun py_round :: "py_num \<Rightarrow> py_num" where
  "py_round (PyFloat x) = PyInt (round_half_even x)"
| "py_round (PyInt n) = PyInt n"

subsection \<open>The POSIX timestamp of a naive datetime\<close>

text \<open>
  \<^verbatim>\<open>datetime.timestamp()\<close> of a naive object is
  \<^verbatim>\<open>self._mktime() + self.microsecond / 1e6\<close>. \<^verbatim>\<open>_mktime\<close> reads the
  object as local time and asks the C library of the platform for the whole seconds since
  the epoch; by its documentation it may raise \<^verbatim>\<open>OverflowError\<close> or
  \<^verbatim>\<open>OSError\<close>, and it raises \<^verbatim>\<open>ValueError\<close> when the time zone moves the year
  out of 1..9999. The platform is not part of the repository: \<open>mktime\<close> is a parameter
  of the model.
\<close>

type_synonym platform = "datetime \<Rightarrow> py_error + int"

definition timestamp :: "platform \<Rightarrow> datetime \<Rightarrow> py_error + py_num" where
  "timestamp mktime self =
     and_then (mktime self) (\<lambda>s.
       Inr (PyFloat (float_add (float_of_int s)
                               (float_div (float_of_int (microsecond self)) 1000000))))"

text \<open>
  The expression that both branches of \<^verbatim>\<open>to_epoch\<close> evaluate:
  \<^verbatim>\<open>round(datetime.strptime(data_string, '%Y/%m/%d %H:%M:%S.%f').timestamp())\<close>.
\<close>

definition convert :: "platform \<Rightarrow> string \<Rightarrow> py_error + py_num" where
  "convert mktime data_string =
     and_then (strptime data_string) (\<lambda>dt.
     and_then (timestamp mktime dt) (\<lambda>x. Inr (py_round x)))"

text \<open>
  The \<^verbatim>\<open>except\<close> clause catches \<^verbatim>\<open>ValueError\<close> only; any other exception
  of the \<^verbatim>\<open>try\<close> block, and every exception of the handler itself, leaves the
  function.
\<close>

definition to_epoch :: "platform \<Rightarrow> string \<Rightarrow> string \<Rightarrow> py_error + py_num" where
  "to_epoch mktime date time =
     (case convert mktime (py_format date time) of
        Inr ts \<Rightarrow> Inr ts
      | Inl ValueError \<Rightarrow> convert mktime ''2017/09/11 17:02:06.418''
      | Inl e \<Rightarrow> Inl e)"

subsection \<open>Platforms and reference values\<close>

text \<open>
  The whole seconds from 1970-01-01 00:00:00 to the fields of a datetime, counted in the
  proleptic Gregorian calendar: \<^verbatim>\<open>(self - epoch) // timedelta(0, 1)\<close>.
\<close>

definition seconds_since_epoch :: "datetime \<Rightarrow> int" where
  "seconds_since_epoch self =
     (ymd2ord (year self) (month self) (day self) - ymd2ord 1970 1 1) * 86400
       + hour self * 3600 + minute self * 60 + second self"

text \<open>A platform whose local time is UTC and whose C library converts every time.\<close>

definition utc_mktime :: platform where
  "utc_mktime self = Inr (seconds_since_epoch self)"

text \<open>
  A platform whose local time is UTC and whose C library rejects negative times, as the
  \<^verbatim>\<open>localtime\<close> of the Windows runtime does. \<^verbatim>\<open>_mktime\<close> asks for the local
  time at the instant and one day before it, so it raises \<^verbatim>\<open>OSError\<close> for every
  datetime before 1970-01-02.
\<close>

definition windows_utc_mktime :: platform where
  "windows_utc_mktime self =
     (if seconds_since_epoch self < 86400 then Inl OSError
      else Inr (seconds_since_epoch self))"

text \<open>The datetime that the constant string of the handler denotes.\<close>

definition fallback_datetime :: datetime where
  "fallback_datetime =
     \<lparr>year = 2017, month = 9, day = 11, hour = 17, minute = 2, second = 6,
      microsecond = 418000\<rparr>"

text \<open>
  The exact number of seconds since the epoch of a datetime whose whole seconds are \<open>s\<close>.
\<close>

definition exact_seconds :: "int \<Rightarrow> datetime \<Rightarrow> rat" where
  "exact_seconds s self = of_int s + of_int (microsecond self) / 1000000"

text \<open>A platform whose conversion raises no exception other than \<^verbatim>\<open>ValueError\<close>.\<close>

definition raises_only_ValueError :: "platform \<Rightarrow> bool" where
  "raises_only_ValueError mktime \<longleftrightarrow>
     (\<forall>dt. case mktime dt of Inl e \<Rightarrow> e = ValueError | Inr s \<Rightarrow> True)"

text \<open>Two datetimes used as examples below.\<close>

definition datetime_2514 :: datetime where
  "datetime_2514 =
     \<lparr>year = 2514, month = 5, day = 30, hour = 1, minute = 53, second = 4,
      microsecond = 500001\<rparr>"

definition datetime_1960 :: datetime where
  "datetime_1960 =
     \<lparr>year = 1960, month = 1, day = 1, hour = 0, minute = 0, second = 0,
      microsecond = 0\<rparr>"

section \<open>Properties of the layer\<close>

text \<open>
  C4: for every dataset and every bounding box \<open>b\<close>, calling \<^verbatim>\<open>bbox()\<close> on
  the layer constructed by \<^verbatim>\<open>TrackLayer(dataset, b)\<close> returns exactly \<open>b\<close>.
\<close>

theorem bbox_returns_configured_view:
  "fst (bbox (TrackLayer WORLD dataset (Some b))) = Inr b"
  by (simp add: bbox_def TrackLayer_def TrackLayer_init_def new_instance_def)

text \<open>
  C7, as the spec states it: all three methods have unimplemented bodies. This fails for
  two of them. On a fresh instance \<^verbatim>\<open>__init__\<close> called with the box \<open>Obj 1\<close>
  changes the instance, and \<^verbatim>\<open>bbox\<close> on the instance whose view is \<open>Obj 1\<close>
  returns that object rather than \<^verbatim>\<open>None\<close>.
\<close>

theorem not_all_methods_unimplemented:
  "\<not> unimplemented new_instance
       (TrackLayer_init (Obj (0::nat)) new_instance (0::nat) (Some (Obj 1)))
   \<and> \<not> unimplemented \<lparr>view = Some (Obj (1::nat))\<rparr> (bbox \<lparr>view = Some (Obj 1)\<rparr>)"
  by (simp add: unimplemented_def TrackLayer_init_def new_instance_def bbox_def)

text \<open>
  C7, amended: of the three methods only \<^verbatim>\<open>draw\<close> has an unimplemented body.
  \<^verbatim>\<open>__init__\<close> returns \<^verbatim>\<open>None\<close> and stores its bounding-box argument
  (or the default) in the attribute \<^verbatim>\<open>view\<close>; \<^verbatim>\<open>bbox\<close> leaves the
  instance unchanged and returns the stored view.
\<close>

theorem only_draw_unimplemented:
  "unimplemented self (draw self proj mouse_x mouse_y ui_manager)
   \<and> TrackLayer_init WORLD self dataset (Some b) = (Inr PyNone, self\<lparr>view := Some b\<rparr>)
   \<and> TrackLayer_init WORLD self dataset None = (Inr PyNone, self\<lparr>view := Some WORLD\<rparr>)
   \<and> bbox (self\<lparr>view := Some b\<rparr>) = (Inr b, self\<lparr>view := Some b\<rparr>)"
  by (simp add: unimplemented_def draw_def TrackLayer_init_def bbox_def)

lemma draw_calls_id: "draw_calls self calls = self"
  by (induction calls arbitrary: self) (auto simp: draw_def)

text \<open>
  C8: \<^verbatim>\<open>draw\<close> is a no-op on the layer. For every layer state and all arguments
  it returns \<^verbatim>\<open>None\<close> and leaves every field unchanged, so \<^verbatim>\<open>bbox()\<close>
  returns the same before and after any sequence of \<^verbatim>\<open>draw\<close> calls.
\<close>

theorem draw_is_noop:
  "draw self proj mouse_x mouse_y ui_manager = (Inr PyNone, self)
   \<and> draw_calls self calls = self
   \<and> bbox (draw_calls self calls) = bbox self"
  by (simp add: draw_calls_id draw_def)

text \<open>
  C9: constructed without a bounding-box argument, the layer's view is
  \<^verbatim>\<open>BoundingBox.WORLD\<close>: for every dataset \<^verbatim>\<open>TrackLayer(dataset).bbox()\<close>
  returns that constant.
\<close>

theorem bbox_defaults_to_WORLD:
  "fst (bbox (TrackLayer WORLD dataset None)) = Inr WORLD"
  by (simp add: bbox_def TrackLayer_def TrackLayer_init_def new_instance_def)

text \<open>
  C10: the constructed layer does not depend on the dataset. For any two datasets and
  any bounding-box argument the two layers are the same instance state, and so
  \<^verbatim>\<open>bbox()\<close> agrees on them.
\<close>

theorem layer_independent_of_dataset:
  "TrackLayer WORLD d1 bbox_arg = TrackLayer WORLD d2 bbox_arg
   \<and> bbox (TrackLayer WORLD d1 bbox_arg) = bbox (TrackLayer WORLD d2 bbox_arg)"
  by (simp add: TrackLayer_def TrackLayer_init_def)

section \<open>Rounding\<close>

lemma round_half_even_error: "\<bar>of_int (round_half_even x) - x\<bar> \<le> 1 / 2"
proof -
  define n where "n = \<lfloor>x\<rfloor>"
  have "of_int n \<le> x" "x < of_int n + 1"
    unfolding n_def by linarith+
  then show ?thesis
    unfolding round_half_even_def Let_def n_def [symmetric]
    by (auto simp: abs_le_iff)
qed

lemma round_half_even_unique:
  assumes "\<bar>x - of_int k\<bar> < 1 / 2"
  shows "round_half_even x = k"
proof (cases "of_int k \<le> x")
  case True
  with assms have "\<lfloor>x\<rfloor> = k"
    by (intro floor_unique) (auto simp: abs_less_iff)
  with assms True show ?thesis
    by (simp add: round_half_even_def Let_def abs_less_iff)
next
  case False
  with assms have "\<lfloor>x\<rfloor> = k - 1"
    by (intro floor_unique) (auto simp: abs_less_iff)
  with assms False show ?thesis
    by (simp add: round_half_even_def Let_def abs_less_iff)
qed

lemma round_half_even_of_int: "round_half_even (of_int n) = n"
  by (rule round_half_even_unique) simp

lemma exponent_bounds:
  assumes "x \<noteq> 0"
  shows "2 powi exponent x \<le> \<bar>x\<bar>" and "\<bar>x\<bar> < 2 powi (exponent x + 1)"
proof -
  define a where "a = \<bar>x\<bar>"
  have a: "0 < a" using assms by (simp add: a_def)
  have "2 powi exponent x \<le> a \<and> a < 2 powi (exponent x + 1)"
  proof (cases "1 \<le> a")
    case True
    define n where "n = \<lfloor>a\<rfloor>"
    have n: "0 < n" using True by (simp add: n_def)
    have e: "exponent x = bitlen n - 1"
      using True by (simp add: exponent_def a_def n_def Let_def)
    have k: "1 \<le> bitlen n"
      using n bitlen_eq_zero_iff [of n] bitlen_nonneg [of n] by linarith
    from bitlen_bounds [OF n] have lo: "2 ^ nat (bitlen n - 1) \<le> n" and hi: "n < 2 ^ nat (bitlen n)"
      by auto
    have "(2::rat) powi (bitlen n - 1) = of_int (2 ^ nat (bitlen n - 1))"
      using k by (simp add: power_int_nonneg_exp)
    also have "\<dots> \<le> of_int n" using lo by (simp only: of_int_le_iff)
    also have "\<dots> \<le> a" by (simp add: n_def)
    finally have 1: "2 powi (bitlen n - 1) \<le> a" .
    have "n + 1 \<le> 2 ^ nat (bitlen n)" using hi by simp
    then have "(of_int (n + 1) :: rat) \<le> of_int (2 ^ nat (bitlen n))"
      by (simp only: of_int_le_iff)
    moreover have "a < of_int (n + 1)" unfolding n_def by simp linarith
    moreover have "(2::rat) powi (bitlen n - 1 + 1) = of_int (2 ^ nat (bitlen n))"
      using k by (simp add: power_int_nonneg_exp)
    ultimately have 2: "a < 2 powi (bitlen n - 1 + 1)" by linarith
    from 1 2 show ?thesis by (simp add: e)
  next
    case False
    define y where "y = 1 / a"
    define n where "n = \<lceil>y\<rceil> - 1"
    have y: "1 < y" using False a by (simp add: y_def)
    have n: "0 < n" using y by (simp add: n_def)
    have e: "exponent x = - bitlen n"
      using False by (simp add: exponent_def a_def n_def y_def Let_def)
    have k: "1 \<le> bitlen n"
      using n bitlen_eq_zero_iff [of n] bitlen_nonneg [of n] by linarith
    from bitlen_bounds [OF n] have lo: "2 ^ nat (bitlen n - 1) \<le> n" and hi: "n < 2 ^ nat (bitlen n)"
      by auto
    have ny: "of_int n < y" "y \<le> of_int n + 1"
      unfolding n_def by linarith+
    have "n + 1 \<le> 2 ^ nat (bitlen n)" using hi by simp
    then have "(of_int (n + 1) :: rat) \<le> of_int (2 ^ nat (bitlen n))"
      by (simp only: of_int_le_iff)
    with ny have "y \<le> 2 ^ nat (bitlen n)" by simp
    then have "1 / 2 ^ nat (bitlen n) \<le> 1 / y"
      using y by (intro divide_left_mono) auto
    moreover have "(2::rat) powi (- bitlen n) = 1 / 2 ^ nat (bitlen n)"
      using k by (simp add: power_int_minus_divide power_int_nonneg_exp)
    moreover have ay: "1 / y = a" using a by (simp add: y_def)
    ultimately have 1: "2 powi (- bitlen n) \<le> a" by simp
    have "(of_int (2 ^ nat (bitlen n - 1)) :: rat) \<le> of_int n"
      using lo by (simp only: of_int_le_iff)
    with ny have "of_int (2 ^ nat (bitlen n - 1)) < y" by linarith
    then have "2 ^ nat (bitlen n - 1) < y" by simp
    then have "1 / y < 1 / 2 ^ nat (bitlen n - 1)"
      using y by (intro divide_strict_left_mono mult_pos_pos) auto
    moreover have "(2::rat) powi (- bitlen n + 1) = 1 / 2 ^ nat (bitlen n - 1)"
    proof -
      have "- bitlen n + 1 = - (bitlen n - 1)" by simp
      then show ?thesis
        using k by (simp only: power_int_minus_divide) (simp add: power_int_nonneg_exp)
    qed
    ultimately have 2: "a < 2 powi (- bitlen n + 1)" using ay by simp
    from 1 2 show ?thesis by (simp add: e)
  qed
  then show "2 powi exponent x \<le> \<bar>x\<bar>" and "\<bar>x\<bar> < 2 powi (exponent x + 1)"
    by (simp_all add: a_def)
qed

lemma exponent_less:
  assumes "x \<noteq> 0" and "\<bar>x\<bar> < 2 powi k"
  shows "exponent x < k"
proof (rule ccontr)
  assume "\<not> exponent x < k"
  then have "(2::rat) powi k \<le> 2 powi exponent x"
    by (intro power_int_increasing) auto
  with exponent_bounds(1) [OF assms(1)] assms(2) show False by linarith
qed

lemma exponent_eqI:
  assumes "2 powi e \<le> \<bar>x\<bar>" and "\<bar>x\<bar> < 2 powi (e + 1)"
  shows "exponent x = e"
proof -
  have "(0::rat) < 2 powi e" by simp
  with assms(1) have "0 < \<bar>x\<bar>" by linarith
  then have x: "x \<noteq> 0" by simp
  have "exponent x < e + 1"
    using x assms(2) by (rule exponent_less)
  moreover have "e < exponent x + 1"
  proof (rule ccontr)
    assume "\<not> e < exponent x + 1"
    then have "(2::rat) powi (exponent x + 1) \<le> 2 powi e"
      by (intro power_int_increasing) auto
    with exponent_bounds(2) [OF x] assms(1) show False by linarith
  qed
  ultimately show ?thesis by simp
qed

lemma to_double_error:
  assumes "x \<noteq> 0"
  shows "\<bar>to_double x - x\<bar> \<le> 2 powi (exponent x - 53)"
proof -
  define u :: rat where "u = 2 powi (exponent x - 52)"
  have u: "0 < u" by (simp add: u_def)
  have "to_double x - x = (of_int (round_half_even (x / u)) - x / u) * u"
    using assms u by (simp add: to_double_def u_def Let_def algebra_simps)
  then have "\<bar>to_double x - x\<bar> = \<bar>of_int (round_half_even (x / u)) - x / u\<bar> * u"
    using u by (simp add: abs_mult)
  also have "\<dots> \<le> (1 / 2) * u"
    using u round_half_even_error [of "x / u"] by (intro mult_right_mono) auto
  also have "\<dots> = 2 powi (exponent x - 53)"
  proof -
    have "(2::rat) powi ((exponent x - 53) + 1) = 2 powi (exponent x - 53) * 2"
      by (rule power_int_add_1) simp
    then show ?thesis by (simp add: u_def)
  qed
  finally show ?thesis .
qed

lemma to_double_exact:
  assumes "x = of_int m * 2 powi j" and "exponent x - 52 \<le> j"
  shows "to_double x = x"
proof (cases "x = 0")
  case True
  then show ?thesis by (simp add: to_double_def)
next
  case False
  define d where "d = j - (exponent x - 52)"
  have d: "0 \<le> d" using assms(2) by (simp add: d_def)
  define u :: rat where "u = 2 powi (exponent x - 52)"
  have u: "u \<noteq> 0" by (simp add: u_def)
  have "(2::rat) powi j = 2 powi d * u"
    by (simp add: d_def u_def flip: power_int_add)
  with assms(1) have "x = (of_int m * 2 powi d) * u" by simp
  then have "x / u = of_int m * 2 powi d"
    using u by simp
  then have "x / 2 powi (exponent x - 52) = of_int m * 2 powi d"
    by (simp only: u_def)
  also have "\<dots> = of_int (m * 2 ^ nat d)"
    using d by (simp add: power_int_nonneg_exp)
  finally have q: "x / 2 powi (exponent x - 52) = of_int (m * 2 ^ nat d)" .
  have "to_double x = of_int (m * 2 ^ nat d) * 2 powi (exponent x - 52)"
    using False unfolding to_double_def Let_def q round_half_even_of_int by simp
  also have "\<dots> = x"
    using q by (simp add: field_simps)
  finally show ?thesis .
qed

lemma to_double_of_int:
  assumes "\<bar>s\<bar> < 2 ^ 53"
  shows "to_double (of_int s) = of_int s"
proof (cases "s = 0")
  case True
  then show ?thesis by (simp add: to_double_def)
next
  case False
  have "\<bar>of_int s :: rat\<bar> < of_int (2 ^ 53)"
    using assms by (simp only: of_int_abs [symmetric] of_int_less_iff)
  then have "\<bar>of_int s :: rat\<bar> < 2 powi 53" by simp
  with False have "exponent (of_int s) < 53"
    by (intro exponent_less) auto
  then show ?thesis
    by (intro to_double_exact [where m = s and j = 0]) auto
qed

lemma to_double_half:
  assumes "\<bar>s\<bar> < 2 ^ 51"
  shows "to_double (of_int s + 1 / 2) = of_int s + 1 / 2"
proof -
  define x :: rat where "x = of_int s + 1 / 2"
  have x: "x = of_int (2 * s + 1) * 2 powi (- 1)"
    by (simp add: x_def field_simps)
  have "x \<noteq> 0"
  proof
    assume "x = 0"
    then have "(of_int (2 * s + 1) :: rat) = of_int 0" unfolding x by simp
    then have "2 * s + 1 = 0" by (simp only: of_int_eq_iff)
    then show False by presburger
  qed
  moreover have "\<bar>x\<bar> < 2 powi 52"
  proof -
    have "\<bar>of_int s :: rat\<bar> < of_int (2 ^ 51)"
      using assms by (simp only: of_int_abs [symmetric] of_int_less_iff)
    then show ?thesis by (simp add: x_def abs_less_iff)
  qed
  ultimately have "exponent x < 52" by (rule exponent_less)
  then have "to_double x = x"
    by (intro to_double_exact [where m = "2 * s + 1" and j = "- 1"] x) auto
  then show ?thesis by (simp add: x_def)
qed

lemma to_double_near:
  assumes "\<bar>y\<bar> < 2 powi k"
  shows "\<bar>to_double y - y\<bar> \<le> 2 powi (k - 54)"
proof (cases "y = 0")
  case True
  then show ?thesis by (simp add: to_double_def)
next
  case False
  then have "exponent y < k" using assms by (rule exponent_less)
  then have "(2::rat) powi (exponent y - 53) \<le> 2 powi (k - 54)"
    by (intro power_int_increasing) auto
  with to_double_error [OF False] show ?thesis by linarith
qed

lemma round_half_even_half:
  "round_half_even (of_int n + 1 / 2) = (if even n then n else n + 1)"
proof -
  have "\<lfloor>of_int n + 1 / 2 :: rat\<rfloor> = n"
    by (intro floor_unique) auto
  then show ?thesis by (simp add: round_half_even_def Let_def)
qed

lemma to_double_eval:
  assumes "2 powi e \<le> \<bar>x\<bar>" and "\<bar>x\<bar> < 2 powi (e + 1)"
  shows "to_double x = of_int (round_half_even (x / 2 powi (e - 52))) * 2 powi (e - 52)"
proof -
  have "(0::rat) < 2 powi e" by simp
  with assms(1) have "0 < \<bar>x\<bar>" by linarith
  then have "x \<noteq> 0" by simp
  then show ?thesis
    by (simp add: to_double_def Let_def exponent_eqI [OF assms])
qed

text \<open>
  For whole seconds below \<open>2 ^ 34\<close> in magnitude the two roundings of the float
  arithmetic stay below one millionth, so rounding the float gives what rounding the
  exact sum gives.
\<close>

lemma timestamp_rounding:
  assumes s: "\<bar>s\<bar> < 2 ^ 34" and us: "0 \<le> us" "us \<le> 999999"
  shows "round_half_even (float_add (float_of_int s) (float_div (float_of_int us) 1000000))
         = round_half_even (of_int s + of_int us / 1000000)"
proof -
  define x :: rat where "x = of_int us / 1000000"
  define a where "a = to_double x"
  define z where "z = to_double (of_int s + a)"
  have S: "to_double (of_int s) = of_int s"
    using s by (intro to_double_of_int) auto
  have U: "to_double (of_int us) = of_int us"
    using us by (intro to_double_of_int) auto
  have p: "(2::rat) powi (- 54) = 1 / 18014398509481984" "(2::rat) powi (- 20) = 1 / 1048576"
    "(2::rat) powi 34 = 17179869184" "(2::rat) powi 0 = 1"
    by simp_all
  from s have "s \<le> 17179869183" "- 17179869183 \<le> s" by simp_all
  then have "(of_int s :: rat) \<le> of_int 17179869183" "(of_int (- 17179869183) :: rat) \<le> of_int s"
    by (simp_all only: of_int_le_iff)
  then have sr: "of_int s \<le> (17179869183::rat)" "- 17179869183 \<le> (of_int s :: rat)"
    by simp_all
  from us have "(of_int 0 :: rat) \<le> of_int us" "(of_int us :: rat) \<le> of_int 999999"
    by (simp_all only: of_int_le_iff)
  then have x: "0 \<le> x" "x \<le> 999999 / 1000000"
    by (simp_all add: x_def)
  then have "\<bar>x\<bar> < 2 powi 0" by simp
  from to_double_near [OF this] have "\<bar>a - x\<bar> \<le> 1 / 18014398509481984"
    by (simp only: a_def p) simp
  then have ax: "a - x \<le> 1 / 18014398509481984" "x - a \<le> 1 / 18014398509481984"
    by (simp_all only: abs_le_iff) linarith+
  have a0: "0 \<le> a"
  proof (cases "us = 0")
    case True
    then show ?thesis by (simp add: a_def x_def to_double_def)
  next
    case False
    with us have "1 \<le> us" by simp
    then have "(of_int 1 :: rat) \<le> of_int us" by (simp only: of_int_le_iff)
    then have "1 / 1000000 \<le> x" by (simp add: x_def)
    with ax show ?thesis by linarith
  qed
  have "\<bar>of_int s + a\<bar> < 17179869184"
    unfolding abs_less_iff using sr ax x a0 by (intro conjI; linarith)
  then have "\<bar>of_int s + a\<bar> < 2 powi 34" by (simp only: p)
  from to_double_near [OF this] have "\<bar>z - (of_int s + a)\<bar> \<le> 1 / 1048576"
    by (simp only: z_def p) simp
  then have zy: "z - (of_int s + a) \<le> 1 / 1048576" "(of_int s + a) - z \<le> 1 / 1048576"
    by (simp_all only: abs_le_iff) linarith+
  have zx: "z - (of_int s + x) < 1 / 1000000" "(of_int s + x) - z < 1 / 1000000"
    using zy ax by linarith+
  consider "us = 500000" | "us < 500000" | "500000 < us" by linarith
  then have "round_half_even z = round_half_even (of_int s + x)"
  proof cases
    case 1
    then have xh: "x = 1 / 2" by (simp add: x_def)
    have "to_double (of_int 0 + 1 / 2 :: rat) = of_int 0 + 1 / 2"
      by (rule to_double_half) simp
    then have ah: "a = 1 / 2" by (simp add: a_def xh)
    have "to_double (of_int s + 1 / 2 :: rat) = of_int s + 1 / 2"
      using s by (intro to_double_half) auto
    then show ?thesis unfolding z_def ah xh by (simp only:)
  next
    case 2
    then have "us \<le> 499999" by simp
    then have "(of_int us :: rat) \<le> of_int 499999" by (simp only: of_int_le_iff)
    then have xl: "x \<le> 499999 / 1000000" by (simp add: x_def)
    have "\<bar>z - of_int s\<bar> < 1 / 2"
      unfolding abs_less_iff using zx xl x by (intro conjI; linarith)
    then have "round_half_even z = s"
      by (rule round_half_even_unique)
    moreover have "\<bar>(of_int s + x) - of_int s\<bar> < 1 / 2"
      unfolding abs_less_iff using xl x by (intro conjI; linarith)
    then have "round_half_even (of_int s + x) = s"
      by (rule round_half_even_unique)
    ultimately show ?thesis by simp
  next
    case 3
    then have "500001 \<le> us" by simp
    then have "(of_int 500001 :: rat) \<le> of_int us" by (simp only: of_int_le_iff)
    then have xl: "500001 / 1000000 \<le> x" by (simp add: x_def)
    have "\<bar>z - of_int (s + 1)\<bar> < 1 / 2"
      unfolding abs_less_iff of_int_add of_int_1 using zx xl x by (intro conjI; linarith)
    then have "round_half_even z = s + 1"
      by (rule round_half_even_unique)
    moreover have "\<bar>(of_int s + x) - of_int (s + 1)\<bar> < 1 / 2"
      unfolding abs_less_iff of_int_add of_int_1 using xl x by (intro conjI; linarith)
    then have "round_half_even (of_int s + x) = s + 1"
      by (rule round_half_even_unique)
    ultimately show ?thesis by simp
  qed
  then show ?thesis
    by (simp add: z_def a_def x_def S U float_add_def float_div_def float_of_int_def)
qed

section \<open>Parsing and conversion\<close>

lemmas parse_defs = strptime_def format_regex_def between_def is_digit_def is_space_def
  eval_nat_numeral py_int_def found_def and_then_def check_date_fields_def
  check_time_fields_def datetime_new_def days_in_month_def DAYS_IN_MONTH_def is_leap_def
  py_format_def

lemmas epoch_defs = seconds_since_epoch_def ymd2ord_def days_before_year_def
  days_before_month_def DAYS_BEFORE_MONTH_def

lemma strptime_ValueError: "strptime s = Inl e \<Longrightarrow> e = ValueError"
  by (auto simp: strptime_def and_then_def check_date_fields_def check_time_fields_def
      datetime_new_def Let_def split: list.splits prod.splits if_splits)

lemma strptime_microsecond:
  "strptime s = Inr dt \<Longrightarrow> 0 \<le> microsecond dt \<and> microsecond dt \<le> 999999"
  by (auto simp: strptime_def and_then_def check_date_fields_def check_time_fields_def
      datetime_new_def Let_def split: list.splits prod.splits if_splits)

lemma strptime_fallback: "strptime ''2017/09/11 17:02:06.418'' = Inr fallback_datetime"
  by (simp add: parse_defs fallback_datetime_def)

lemma strptime_nan: "strptime (py_format ''nan'' ''nan'') = Inl ValueError"
  by (simp add: parse_defs)

lemma convert_parse_error: "strptime s = Inl e \<Longrightarrow> convert mktime s = Inl ValueError"
  using strptime_ValueError [of s e] by (simp add: convert_def and_then_def)

lemma convert_parsed:
  "strptime s = Inr dt \<Longrightarrow> mktime dt = Inr n \<Longrightarrow>
   convert mktime s =
     Inr (PyInt (round_half_even
       (float_add (float_of_int n) (float_div (float_of_int (microsecond dt)) 1000000))))"
  by (simp add: convert_def timestamp_def and_then_def)

lemma convert_raises:
  "strptime s = Inr dt \<Longrightarrow> mktime dt = Inl e \<Longrightarrow> convert mktime s = Inl e"
  by (simp add: convert_def timestamp_def and_then_def)

lemma convert_int: "convert mktime s = Inr v \<Longrightarrow> \<exists>n. v = PyInt n"
  by (auto simp: convert_def timestamp_def and_then_def split: sum.splits)

lemma to_epoch_cases:
  "to_epoch mktime date time =
     (if convert mktime (py_format date time) = Inl ValueError
      then convert mktime ''2017/09/11 17:02:06.418''
      else convert mktime (py_format date time))"
  by (simp add: to_epoch_def split: sum.splits py_error.splits)

lemma utc_fallback: "utc_mktime fallback_datetime = Inr 1505149326"
  by (simp add: utc_mktime_def fallback_datetime_def epoch_defs is_leap_def)

lemma convert_utc_fallback:
  "convert utc_mktime ''2017/09/11 17:02:06.418'' = Inr (PyInt 1505149326)"
proof -
  have "round_half_even
          (float_add (float_of_int 1505149326)
            (float_div (float_of_int (microsecond fallback_datetime)) 1000000))
        = round_half_even (of_int 1505149326 + of_int (microsecond fallback_datetime) / 1000000)"
    by (rule timestamp_rounding) (simp_all add: fallback_datetime_def)
  also have "\<dots> = 1505149326"
    by (rule round_half_even_unique) (simp add: fallback_datetime_def)
  finally show ?thesis
    by (simp add: convert_parsed [where mktime = utc_mktime, OF strptime_fallback utc_fallback])
qed

lemma utc_raises_only_ValueError: "raises_only_ValueError utc_mktime"
  by (simp add: raises_only_ValueError_def utc_mktime_def)

section \<open>Properties of the timestamp conversion\<close>

subsection \<open>An instant of the year 2514 under UTC\<close>

lemma parse_2514:
  "strptime (py_format ''2514/05/30'' ''01:53:04.500001'') = Inr datetime_2514"
  by (simp add: parse_defs datetime_2514_def)

lemma utc_2514: "utc_mktime datetime_2514 = Inr 17179869184"
  by (simp add: utc_mktime_def datetime_2514_def epoch_defs is_leap_def)

lemma double_500001: "to_double (500001 / 1000000) = 4503608634569751 / 9007199254740992"
proof -
  have "round_half_even (500001 / 1000000 / 2 powi (- 1 - 52)) = 4503608634569751"
    by (rule round_half_even_unique) simp
  with to_double_eval [of "- 1" "500001 / 1000000"] show ?thesis by simp
qed

lemma double_2514:
  "to_double (17179869184 + 4503608634569751 / 9007199254740992) = 34359738369 / 2"
proof -
  have "round_half_even ((17179869184 + 4503608634569751 / 9007199254740992) / 2 powi (34 - 52))
          = 4503599627501568"
    by (rule round_half_even_unique) simp
  with to_double_eval [of 34 "17179869184 + 4503608634569751 / 9007199254740992"]
  show ?thesis by simp
qed

lemma float_2514:
  "float_add (float_of_int 17179869184) (float_div (float_of_int 500001) 1000000)
     = 34359738369 / 2"
proof -
  have a: "to_double (of_int 17179869184) = (of_int 17179869184 :: rat)"
    by (rule to_double_of_int) simp
  have b: "to_double (of_int 500001) = (of_int 500001 :: rat)"
    by (rule to_double_of_int) simp
  have c: "to_double (of_int 500001 / 1000000) = 4503608634569751 / 9007199254740992"
    using double_500001 by simp
  have d: "to_double (of_int 17179869184 + 4503608634569751 / 9007199254740992)
             = 34359738369 / 2"
    using double_2514 by simp
  show ?thesis
    by (simp only: float_add_def float_div_def float_of_int_def a b c d)
qed

lemma round_2514: "round_half_even (34359738369 / 2) = 17179869184"
proof -
  have "round_half_even (of_int 17179869184 + 1 / 2) = 17179869184"
    by (simp only: round_half_even_half) simp
  then show ?thesis by simp
qed

lemma to_epoch_2514:
  "to_epoch utc_mktime ''2514/05/30'' ''01:53:04.500001'' = Inr (PyInt 17179869184)"
proof -
  have "microsecond datetime_2514 = 500001" by (simp add: datetime_2514_def)
  with convert_parsed [where mktime = utc_mktime, OF parse_2514 utc_2514]
  have "convert utc_mktime (py_format ''2514/05/30'' ''01:53:04.500001'')
          = Inr (PyInt 17179869184)"
    by (simp add: float_2514 round_2514)
  then show ?thesis by (simp add: to_epoch_cases)
qed

text \<open>
  C1, as the spec states it: for every pair of strings that matches the format,
  \<^verbatim>\<open>to_epoch\<close> returns the seconds since the epoch of the parsed datetime, rounded
  to the nearest integer. This fails from \<open>2 ^ 34\<close> seconds after the epoch on, where a
  float no longer resolves a microsecond. Under UTC the strings \<^verbatim>\<open>2514/05/30\<close>
  and \<^verbatim>\<open>01:53:04.500001\<close> parse, the instant is 17179869184.500001 seconds
  after the epoch, and \<^verbatim>\<open>to_epoch\<close> returns 17179869184, which is further than one
  half from it: the float sum is 17179869184.5 and \<^verbatim>\<open>round\<close> takes the tie to
  the even integer.
\<close>

theorem to_epoch_not_nearest_in_2514:
  "strptime (py_format ''2514/05/30'' ''01:53:04.500001'') = Inr datetime_2514
   \<and> utc_mktime datetime_2514 = Inr 17179869184
   \<and> to_epoch utc_mktime ''2514/05/30'' ''01:53:04.500001'' = Inr (PyInt 17179869184)
   \<and> \<not> \<bar>of_int 17179869184 - exact_seconds 17179869184 datetime_2514\<bar> \<le> 1 / 2"
proof -
  have "\<not> \<bar>of_int 17179869184 - exact_seconds 17179869184 datetime_2514\<bar> \<le> 1 / 2"
    by (simp add: exact_seconds_def datetime_2514_def)
  with parse_2514 utc_2514 to_epoch_2514 show ?thesis by (intro conjI)
qed

text \<open>
  C1, amended: when the concatenation of the two strings parses to a datetime and the
  platform converts that datetime to \<open>s\<close> whole seconds since the epoch with
  \<open>\<bar>s\<bar> < 2 ^ 34\<close> (the years 1426 to 2513), \<^verbatim>\<open>to_epoch\<close> returns the exact
  count \<open>s + microsecond / 10 ^ 6\<close> rounded to the nearest integer, a tie going to
  the even one.
\<close>

theorem to_epoch_nearest_second:
  assumes "strptime (py_format date time) = Inr dt"
    and "mktime dt = Inr s"
    and "\<bar>s\<bar> < 2 ^ 34"
  shows "to_epoch mktime date time = Inr (PyInt (round_half_even (exact_seconds s dt)))
         \<and> \<bar>of_int (round_half_even (exact_seconds s dt)) - exact_seconds s dt\<bar> \<le> 1 / 2"
proof -
  from strptime_microsecond [OF assms(1)]
  have us: "0 \<le> microsecond dt" "microsecond dt \<le> 999999" by simp_all
  have "convert mktime (py_format date time)
          = Inr (PyInt (round_half_even (exact_seconds s dt)))"
    unfolding convert_parsed [where mktime = mktime, OF assms(1) assms(2)] exact_seconds_def
    using timestamp_rounding [OF assms(3) us] by simp
  then have "to_epoch mktime date time = Inr (PyInt (round_half_even (exact_seconds s dt)))"
    by (simp add: to_epoch_cases)
  then show ?thesis
    using round_half_even_error [of "exact_seconds s dt"] by simp
qed

theorem to_epoch_nearest_second_witness:
  "strptime (py_format ''2017/09/11'' ''17:02:06.418'') = Inr fallback_datetime
   \<and> utc_mktime fallback_datetime = Inr 1505149326
   \<and> \<bar>1505149326 :: int\<bar> < 2 ^ 34
   \<and> to_epoch utc_mktime ''2017/09/11'' ''17:02:06.418'' = Inr (PyInt 1505149326)"
proof -
  have p: "strptime (py_format ''2017/09/11'' ''17:02:06.418'') = Inr fallback_datetime"
    by (simp add: parse_defs fallback_datetime_def)
  have b: "\<bar>1505149326 :: int\<bar> < 2 ^ 34" by simp
  have "round_half_even (exact_seconds 1505149326 fallback_datetime) = 1505149326"
    by (rule round_half_even_unique) (simp add: exact_seconds_def fallback_datetime_def)
  with to_epoch_nearest_second [where mktime = utc_mktime, OF p utc_fallback b] p utc_fallback b
  show ?thesis by simp
qed

text \<open>
  C2: when the concatenation of the two strings fails to parse, \<^verbatim>\<open>to_epoch\<close> does not
  raise and returns one fixed timestamp: the value of the handler's expression, which
  does not depend on the two strings. The platform is assumed to convert the instant
  2017-09-11 17:02:06 of the handler.
\<close>

theorem to_epoch_fallback_constant:
  assumes "strptime (py_format date time) = Inl e"
    and "mktime fallback_datetime = Inr s"
  shows "to_epoch mktime date time = convert mktime ''2017/09/11 17:02:06.418''
         \<and> (\<exists>n. convert mktime ''2017/09/11 17:02:06.418'' = Inr (PyInt n))"
  using convert_parse_error [OF assms(1), of mktime]
    convert_parsed [where mktime = mktime, OF strptime_fallback assms(2)]
  by (simp add: to_epoch_cases)

theorem to_epoch_fallback_constant_witness:
  "strptime (py_format ''nan'' ''nan'') = Inl ValueError
   \<and> utc_mktime fallback_datetime = Inr 1505149326
   \<and> to_epoch utc_mktime ''nan'' ''nan'' = Inr (PyInt 1505149326)"
  using to_epoch_fallback_constant [where mktime = utc_mktime, OF strptime_nan utc_fallback]
    strptime_nan utc_fallback convert_utc_fallback
  by simp

text \<open>
  C3, as the spec states it: \<^verbatim>\<open>to_epoch\<close> never propagates an exception, also for
  extreme dates. This fails where \<^verbatim>\<open>timestamp()\<close> raises an exception that is not
  a \<^verbatim>\<open>ValueError\<close>: on the platform that rejects times before the epoch the strings
  \<^verbatim>\<open>1960/01/01\<close> and \<^verbatim>\<open>00:00:00.0\<close> parse, the conversion raises
  \<^verbatim>\<open>OSError\<close>, and the handler does not catch it.
\<close>

theorem to_epoch_propagates_OSError:
  "strptime (py_format ''1960/01/01'' ''00:00:00.0'') = Inr datetime_1960
   \<and> windows_utc_mktime datetime_1960 = Inl OSError
   \<and> to_epoch windows_utc_mktime ''1960/01/01'' ''00:00:00.0'' = Inl OSError"
proof -
  have p: "strptime (py_format ''1960/01/01'' ''00:00:00.0'') = Inr datetime_1960"
    by (simp add: parse_defs datetime_1960_def)
  have w: "windows_utc_mktime datetime_1960 = Inl OSError"
    by (simp add: windows_utc_mktime_def datetime_1960_def epoch_defs is_leap_def)
  from convert_raises [where mktime = windows_utc_mktime, OF p w] p w show ?thesis
    by (simp add: to_epoch_cases)
qed

lemma convert_only_ValueError:
  assumes "raises_only_ValueError mktime" and "convert mktime s = Inl e"
  shows "e = ValueError"
proof (cases "strptime s")
  case (Inl e')
  from convert_parse_error [OF this, of mktime] assms(2) show ?thesis by simp
next
  case (Inr dt)
  from assms(1) have "case mktime dt of Inl e \<Rightarrow> e = ValueError | Inr s \<Rightarrow> True"
    unfolding raises_only_ValueError_def by blast
  with assms(2) Inr show ?thesis
    by (auto simp: convert_def timestamp_def and_then_def split: sum.splits)
qed

text \<open>
  C3, amended: on a platform whose conversion of local time raises no exception other
  than \<^verbatim>\<open>ValueError\<close> and converts the instant of the handler,
  \<^verbatim>\<open>to_epoch\<close> returns an integer for every pair of strings.
\<close>

theorem to_epoch_total_on_ValueError_platform:
  assumes "raises_only_ValueError mktime"
    and "mktime fallback_datetime = Inr s"
  shows "\<exists>n. to_epoch mktime date time = Inr (PyInt n)"
proof (cases "convert mktime (py_format date time)")
  case (Inl e)
  with convert_only_ValueError [OF assms(1) Inl]
  have "to_epoch mktime date time = convert mktime ''2017/09/11 17:02:06.418''"
    by (simp add: to_epoch_cases)
  with convert_parsed [where mktime = mktime, OF strptime_fallback assms(2)] show ?thesis by simp
next
  case (Inr v)
  with convert_int [OF Inr] show ?thesis by (auto simp: to_epoch_cases)
qed

theorem to_epoch_total_on_ValueError_platform_witness:
  "raises_only_ValueError utc_mktime
   \<and> utc_mktime fallback_datetime = Inr 1505149326
   \<and> (\<exists>n. to_epoch utc_mktime ''1960/01/01'' ''00:00:00.0'' = Inr (PyInt n))"
  using to_epoch_total_on_ValueError_platform
      [where mktime = utc_mktime, OF utc_raises_only_ValueError utc_fallback]
    utc_raises_only_ValueError utc_fallback
  by simp

lemma to_epoch_utc_nan: "to_epoch utc_mktime ''nan'' ''nan'' = Inr (PyInt 1505149326)"
  using convert_parse_error [OF strptime_nan, of utc_mktime] convert_utc_fallback
  by (simp add: to_epoch_cases)

lemma to_epoch_utc_constant:
  "to_epoch utc_mktime ''2017/09/11'' ''17:02:06.418'' = Inr (PyInt 1505149326)"
  using convert_utc_fallback by (simp add: to_epoch_cases py_format_def)

text \<open>
  C5: whether parsing succeeds or fails, a value that \<^verbatim>\<open>to_epoch\<close> returns is an
  \<^verbatim>\<open>int\<close>, never a float.
\<close>

theorem to_epoch_returns_int:
  assumes "to_epoch mktime date time = Inr v"
  shows "\<exists>n. v = PyInt n"
  using assms convert_int [of mktime]
  by (auto simp: to_epoch_cases split: if_splits)

theorem to_epoch_returns_int_witness:
  "to_epoch utc_mktime ''2017/09/11'' ''17:02:06.418'' = Inr (PyInt 1505149326)
   \<and> to_epoch utc_mktime ''nan'' ''nan'' = Inr (PyInt 1505149326)
   \<and> (\<exists>n. PyInt 1505149326 = PyInt n)"
  using to_epoch_returns_int [OF to_epoch_utc_constant] to_epoch_utc_constant to_epoch_utc_nan
  by simp

text \<open>
  C6: the fallback value is the conversion of the constant strings. For every pair of
  strings that fails to parse, \<^verbatim>\<open>to_epoch\<close> returns what it returns for
  \<^verbatim>\<open>2017/09/11\<close> and \<^verbatim>\<open>17:02:06.418\<close>, a pair that parses.
\<close>

theorem to_epoch_fallback_is_constant_conversion:
  assumes "strptime (py_format date time) = Inl e"
  shows "to_epoch mktime date time = to_epoch mktime ''2017/09/11'' ''17:02:06.418''
         \<and> strptime (py_format ''2017/09/11'' ''17:02:06.418'') = Inr fallback_datetime"
proof -
  have c: "py_format ''2017/09/11'' ''17:02:06.418'' = ''2017/09/11 17:02:06.418''"
    by (simp add: py_format_def)
  from convert_parse_error [OF assms, of mktime] show ?thesis
    by (simp add: to_epoch_cases c strptime_fallback)
qed

theorem to_epoch_fallback_is_constant_conversion_witness:
  "strptime (py_format ''nan'' ''nan'') = Inl ValueError
   \<and> to_epoch utc_mktime ''nan'' ''nan'' = to_epoch utc_mktime ''2017/09/11'' ''17:02:06.418''"
  using to_epoch_fallback_is_constant_conversion [OF strptime_nan, of utc_mktime] strptime_nan
  by simp

end
